theory Spec2Isabelle
  imports Main
begin

section \<open>Data model\<close>

text \<open>
  The repository builds one struct, \<^verbatim>\<open>Client\<close>, in several ways. Every package declares
  the same four fields:
  \<^verbatim>\<open>
  type ILogger interface{}
  type Client struct {
      baseURL    string
      header     map[string]string
      logger     ILogger
      baseClient *http.Client
  }
  \<close>
  Go's \<^verbatim>\<open>nil\<close> is \<open>None\<close> throughout: a \<^verbatim>\<open>map[string]string\<close> is \<open>None\<close> (the nil map)
  or \<open>Some m\<close> with \<open>m\<close> its contents; an \<^verbatim>\<open>ILogger\<close> is \<open>None\<close> (the nil interface) or
  \<open>Some v\<close> for a dynamic value \<open>v\<close> of any type \<open>'l\<close>; a pointer is \<open>None\<close> or \<open>Some a\<close> with
  \<open>a\<close> the address of an object of the heap below. No code of the repository writes into a
  map after it is stored, so a map is modelled by its contents.
\<close>

type_synonym addr = nat
type_synonym ptr = "addr option"
type_synonym go_map = "(string \<rightharpoonup> string) option"

record 'l Client =
  baseURL :: string
  header :: go_map
  logger :: "'l option"
  baseClient :: ptr

text \<open>
  \<^verbatim>\<open>http.Client\<close> belongs to Go's standard library (net/http), not to the repository. The
  repository only ever writes the composite literal \<^verbatim>\<open>http.Client{}\<close>, the struct with every
  field at its zero value: three nil fields and a zero \<^verbatim>\<open>Timeout\<close>.
\<close>

record http_Client =
  Transport :: "nat option"
  CheckRedirect :: "nat option"
  Jar :: "nat option"
  Timeout :: int

definition http_Client_zero :: http_Client where
  "http_Client_zero = \<lparr>Transport = None, CheckRedirect = None, Jar = None, Timeout = 0\<rparr>"

text \<open>
  The heap holds the objects that \<^verbatim>\<open>&T{...}\<close> allocates, one list per type; the address of
  an object is its index. An allocation appends, so the address it returns was not in use
  before, and no object that exists is moved or changed.
\<close>

record 'l heap =
  Client_objs :: "'l Client list"
  http_Client_objs :: "http_Client list"

definition new_http_Client :: "http_Client \<Rightarrow> 'l heap \<Rightarrow> addr \<times> 'l heap" where
  "new_http_Client v s =
     (length (http_Client_objs s), s\<lparr>http_Client_objs := http_Client_objs s @ [v]\<rparr>)"

definition new_Client :: "'l Client \<Rightarrow> 'l heap \<Rightarrow> addr \<times> 'l heap" where
  "new_Client v s = (length (Client_objs s), s\<lparr>Client_objs := Client_objs s @ [v]\<rparr>)"

definition load_Client :: "ptr \<Rightarrow> 'l heap \<Rightarrow> 'l Client option" where
  "load_Client p s =
     (case p of
        None \<Rightarrow> None
      | Some a \<Rightarrow> if a < length (Client_objs s) then Some (Client_objs s ! a) else None)"

definition load_http_Client :: "ptr \<Rightarrow> 'l heap \<Rightarrow> http_Client option" where
  "load_http_Client p s =
     (case p of
        None \<Rightarrow> None
      | Some a \<Rightarrow>
          if a < length (http_Client_objs s) then Some (http_Client_objs s ! a) else None)"

section \<open>The functional-options constructor\<close>

text \<open>
  \<^verbatim>\<open>type Option func(*Client)\<close>. A value of a Go func type is nil (\<open>None\<close>) or a closure.
  A closure reads and writes the struct its argument points to, and it returns or panics:
  it is a function from the struct it finds to the panic it raises (\<open>Inl\<close>) or the struct
  it leaves (\<open>Inr\<close>). An \<^verbatim>\<open>Option\<close> has no result value, so a panic is the one way it has
  to tell its caller that it failed. The closures of the repository are single field
  assignments, which always return.

  The panics are Go's run-time errors for a nil pointer or nil func value and for a write
  to a nil map, and \<^verbatim>\<open>panic(v)\<close> raised by a closure itself.
\<close>

datatype panic = NilDereference | NilMapAssignment | Raised string

type_synonym 'l Option = "('l Client \<Rightarrow> panic + 'l Client) option"

text \<open>
  \<^verbatim>\<open>opt(client)\<close>: calling a nil func value is Go's run-time panic "invalid memory address
  or nil pointer dereference". A closure that returns has updated the struct at
  \<^verbatim>\<open>client\<close> in place; a closure that panics has no heap to hand back. \<^verbatim>\<open>New\<close> passes the
  address it has just allocated, so the address is that of an object; at an address that
  holds no object the closure has nothing to dereference, which is the nil dereference.
\<close>

definition call_Option :: "'l Option \<Rightarrow> addr \<Rightarrow> 'l heap \<Rightarrow> panic + 'l heap" where
  "call_Option opt client s =
     (case opt of
        None \<Rightarrow> Inl NilDereference
      | Some f \<Rightarrow>
          if client < length (Client_objs s) then
            (case f (Client_objs s ! client) of
               Inl e \<Rightarrow> Inl e
             | Inr c \<Rightarrow> Inr (s\<lparr>Client_objs := (Client_objs s)[client := c]\<rparr>))
          else Inl NilDereference)"

text \<open>
  \<^verbatim>\<open>for _, opt := range opts { opt(client) }\<close>: the options run in the order given, each on
  the heap the one before it left. \<^verbatim>\<open>New\<close> has no \<^verbatim>\<open>recover\<close>: a panic ends the loop and
  the call of \<^verbatim>\<open>New\<close>, and nothing is returned.
\<close>

fun apply_opts :: "'l Option list \<Rightarrow> addr \<Rightarrow> 'l heap \<Rightarrow> panic + 'l heap" where
  "apply_opts [] client s = Inr s"
| "apply_opts (opt # opts) client s =
     (case call_Option opt client s of
        Inl e \<Rightarrow> Inl e
      | Inr s' \<Rightarrow> apply_opts opts client s')"

text \<open>
  \<^verbatim>\<open>
  func New(baseURL string, opts ...Option) *Client {
      client := &Client{
          baseURL:    baseURL,
          header:     map[string]string{},
          baseClient: &http.Client{},
      }
      for _, opt := range opts {
          opt(client)
      }
      return client
  }
  \<close>
  The literal leaves \<^verbatim>\<open>logger\<close> out, so it is the nil interface. \<^verbatim>\<open>New\<close> does not look at
  \<^verbatim>\<open>baseURL\<close>.
\<close>

definition New :: "string \<Rightarrow> 'l Option list \<Rightarrow> 'l heap \<Rightarrow> panic + (ptr \<times> 'l heap)" where
  "New b opts s =
     (let (bc, s1) = new_http_Client http_Client_zero s;
          (client, s2) =
             new_Client
               \<lparr>baseURL = b, header = Some Map.empty, logger = None, baseClient = Some bc\<rparr> s1
      in case apply_opts opts client s2 of
           Inl e \<Rightarrow> Inl e
         | Inr s3 \<Rightarrow> Inr (Some client, s3))"

text \<open>
  \<^verbatim>\<open>
  func WithHeader(header map[string]string) Option {
      return func(c *Client) { c.header = header }
  }
  func WithLogger(logger ILogger) Option {
      return func(c *Client) { c.logger = logger }
  }
  \<close>
\<close>

definition WithHeader :: "go_map \<Rightarrow> 'l Option" where
  "WithHeader h = Some (\<lambda>c. Inr (c\<lparr>header := h\<rparr>))"

definition WithLogger :: "'l option \<Rightarrow> 'l Option" where
  "WithLogger l = Some (\<lambda>c. Inr (c\<lparr>logger := l\<rparr>))"

text \<open>The struct a constructor returns, read from the heap it returns.\<close>

definition target :: "panic + (ptr \<times> 'l heap) \<Rightarrow> 'l Client option" where
  "target r = (case r of Inl e \<Rightarrow> None | Inr (p, s) \<Rightarrow> load_Client p s)"

text \<open>The heap of a program that has allocated nothing yet.\<close>

definition empty_heap :: "'l heap" where
  "empty_heap = \<lparr>Client_objs = [], http_Client_objs = []\<rparr>"

section \<open>The other constructors\<close>

text \<open>
  The traditional constructor (package \<^verbatim>\<open>traditional_constructor\<close>; its \<^verbatim>\<open>New\<close> is named
  \<open>traditional_New\<close> here, the name \<open>New\<close> being taken):
  \<^verbatim>\<open>
  func New(baseURL string, header map[string]string, logger ILogger) *Client {
      return &Client{
          baseURL:    baseURL,
          header:     header,
          logger:     logger,
          baseClient: &http.Client{},
      }
  }
  \<close>
\<close>

definition traditional_New ::
  "string \<Rightarrow> go_map \<Rightarrow> 'l option \<Rightarrow> 'l heap \<Rightarrow> ptr \<times> 'l heap" where
  "traditional_New b h l s =
     (let (bc, s1) = new_http_Client http_Client_zero s;
          (client, s2) =
             new_Client \<lparr>baseURL = b, header = h, logger = l, baseClient = Some bc\<rparr> s1
      in (Some client, s2))"

text \<open>
  The config-struct constructor (package \<^verbatim>\<open>config_struct\<close>):
  \<^verbatim>\<open>
  type Config struct {
      BaseURL string
      Header  map[string]string
      Logger  ILogger
  }
  func NewWithConfig(config *Config) *Client {
      return &Client{
          baseURL:    config.BaseURL,
          header:     config.Header,
          logger:     config.Logger,
          baseClient: &http.Client{},
      }
  }
  \<close>
  The argument is modelled by the struct it points to, \<open>None\<close> for the nil pointer, whose
  first field read panics before anything is allocated.
\<close>

record 'l Config =
  BaseURL :: string
  Header :: go_map
  Logger :: "'l option"

definition NewWithConfig :: "'l Config option \<Rightarrow> 'l heap \<Rightarrow> panic + (ptr \<times> 'l heap)" where
  "NewWithConfig config s =
     (case config of
        None \<Rightarrow> Inl NilDereference
      | Some cfg \<Rightarrow>
          (let (bc, s1) = new_http_Client http_Client_zero s;
               (client, s2) =
                  new_Client
                    \<lparr>baseURL = BaseURL cfg, header = Header cfg, logger = Logger cfg,
                      baseClient = Some bc\<rparr> s1
           in Inr (Some client, s2)))"

section \<open>Notions used to state the properties\<close>

text \<open>
  The three attributes a caller chooses. The fourth field, \<^verbatim>\<open>baseClient\<close>, is an address.
\<close>

definition attributes :: "'l Client \<Rightarrow> string \<times> go_map \<times> 'l option" where
  "attributes c = (baseURL c, header c, logger c)"

text \<open>
  An option whose effect is a pure assignment stores a captured value in one field of the
  struct, as the closures of \<^verbatim>\<open>WithHeader\<close> and \<^verbatim>\<open>WithLogger\<close> do. The struct has four
  fields, so there are four kinds of them; \<open>attribute_of\<close> tells which field one writes.
\<close>

datatype 'l assignment =
    Set_baseURL string
  | Set_header go_map
  | Set_logger "'l option"
  | Set_baseClient ptr

fun assign :: "'l assignment \<Rightarrow> 'l Client \<Rightarrow> 'l Client" where
  "assign (Set_baseURL v) c = c\<lparr>baseURL := v\<rparr>"
| "assign (Set_header v) c = c\<lparr>header := v\<rparr>"
| "assign (Set_logger v) c = c\<lparr>logger := v\<rparr>"
| "assign (Set_baseClient v) c = c\<lparr>baseClient := v\<rparr>"

datatype attribute = Attr_baseURL | Attr_header | Attr_logger | Attr_baseClient

fun attribute_of :: "'l assignment \<Rightarrow> attribute" where
  "attribute_of (Set_baseURL v) = Attr_baseURL"
| "attribute_of (Set_header v) = Attr_header"
| "attribute_of (Set_logger v) = Attr_logger"
| "attribute_of (Set_baseClient v) = Attr_baseClient"

definition assignment_Option :: "'l assignment \<Rightarrow> 'l Option" where
  "assignment_Option v = Some (\<lambda>c. Inr (assign v c))"

text \<open>The options that the two factories of the repository produce.\<close>

definition named_option :: "'l Option \<Rightarrow> bool" where
  "named_option opt \<longleftrightarrow> (\<exists>h. opt = WithHeader h) \<or> (\<exists>l. opt = WithLogger l)"

text \<open>
  Two structs, each in its own heap, agree attribute for attribute when their identifiers,
  headers and loggers are equal and their \<^verbatim>\<open>baseClient\<close> pointers are both nil or lead to
  equal \<^verbatim>\<open>http.Client\<close> values. The pointers themselves are addresses of separate
  allocations and are not compared.
\<close>

definition same_attributes :: "'l heap \<Rightarrow> 'l Client \<Rightarrow> 'l heap \<Rightarrow> 'l Client \<Rightarrow> bool" where
  "same_attributes s1 c1 s2 c2 \<longleftrightarrow>
     baseURL c1 = baseURL c2 \<and> header c1 = header c2 \<and> logger c1 = logger c2 \<and>
     load_http_Client (baseClient c1) s1 = load_http_Client (baseClient c2) s2"

text \<open>
  Two options behave the same when both are nil, or both are closures that, on structs
  agreeing attribute for attribute, raise the same panic or leave structs agreeing
  attribute for attribute.
\<close>

definition same_behaviour :: "'l Option \<Rightarrow> 'l Option \<Rightarrow> bool" where
  "same_behaviour o1 o2 \<longleftrightarrow>
     (case (o1, o2) of
        (None, None) \<Rightarrow> True
      | (Some f, Some g) \<Rightarrow>
          (\<forall>s1 s2 c1 c2. same_attributes s1 c1 s2 c2 \<longrightarrow>
             (case (f c1, g c2) of
                (Inl e1, Inl e2) \<Rightarrow> e1 = e2
              | (Inr d1, Inr d2) \<Rightarrow> same_attributes s1 d1 s2 d2
              | _ \<Rightarrow> False))
      | _ \<Rightarrow> False)"

text \<open>
  Two calls of a constructor have the same outcome when both panic alike, or both return a
  pointer to a struct and the two structs agree attribute for attribute.
\<close>

definition same_outcome :: "panic + (ptr \<times> 'l heap) \<Rightarrow> panic + (ptr \<times> 'l heap) \<Rightarrow> bool" where
  "same_outcome r1 r2 \<longleftrightarrow>
     (case (r1, r2) of
        (Inl e1, Inl e2) \<Rightarrow> e1 = e2
      | (Inr (p1, t1), Inr (p2, t2)) \<Rightarrow>
          (case (load_Client p1 t1, load_Client p2 t2) of
             (Some c1, Some c2) \<Rightarrow> same_attributes t1 c1 t2 c2
           | _ \<Rightarrow> False)
      | _ \<Rightarrow> False)"

text \<open>
  An option that a caller of the package can write by hand, not one of the repository:
  \<^verbatim>\<open>func(c *Client) { c.header[k] = v }\<close>. Go panics on a write to a nil map.
\<close>

definition AddHeader :: "string \<Rightarrow> string \<Rightarrow> 'l Option" where
  "AddHeader k v =
     Some (\<lambda>c. case header c of
                 None \<Rightarrow> Inl NilMapAssignment
               | Some m \<Rightarrow> Inr (c\<lparr>header := Some (m(k \<mapsto> v))\<rparr>))"

text \<open>A heap in which a client and an \<^verbatim>\<open>http.Client\<close> with a timeout already exist.\<close>

definition busy_heap :: "nat heap" where
  "busy_heap =
     \<lparr>Client_objs = [\<lparr>baseURL = ''http://localhost'', header = None, logger = Some 3,
                      baseClient = Some 0\<rparr>],
      http_Client_objs = [http_Client_zero\<lparr>Timeout := 30\<rparr>]\<rparr>"

section \<open>What the constructor computes\<close>

lemma New_Nil:
  "New b [] s =
     Inr (Some (length (Client_objs s)),
          s\<lparr>http_Client_objs := http_Client_objs s @ [http_Client_zero],
            Client_objs := Client_objs s @
              [\<lparr>baseURL = b, header = Some Map.empty, logger = None,
                baseClient = Some (length (http_Client_objs s))\<rparr>]\<rparr>)"
  by (simp add: New_def new_http_Client_def new_Client_def)

text \<open>The loop over a sequence that continues: the first part runs, then the rest.\<close>

lemma apply_opts_append:
  "apply_opts (pre @ post) a s =
     (case apply_opts pre a s of Inl e \<Rightarrow> Inl e | Inr t \<Rightarrow> apply_opts post a t)"
  by (induction pre arbitrary: s) (simp_all split: sum.splits)

lemma New_apply_opts:
  "New b opts s =
     (case apply_opts opts (length (Client_objs s))
             (s\<lparr>http_Client_objs := http_Client_objs s @ [http_Client_zero],
                Client_objs := Client_objs s @
                  [\<lparr>baseURL = b, header = Some Map.empty, logger = None,
                    baseClient = Some (length (http_Client_objs s))\<rparr>]\<rparr>) of
        Inl e \<Rightarrow> Inl e
      | Inr t \<Rightarrow> Inr (Some (length (Client_objs s)), t))"
  by (simp add: New_def new_http_Client_def new_Client_def cong: sum.case_cong)

text \<open>
  A call of \<^verbatim>\<open>New\<close> that panics has run some options to their end and then called one that
  panicked: every failing run has the shape that the fail-fast property speaks of.
\<close>

lemma apply_opts_Inl:
  "apply_opts opts a s = Inl e \<Longrightarrow>
   \<exists>pre opt post t. opts = pre @ opt # post \<and> apply_opts pre a s = Inr t \<and>
     call_Option opt a t = Inl e"
proof (induction opts arbitrary: s)
  case Nil
  then show ?case by simp
next
  case (Cons x xs)
  show ?case
  proof (cases "call_Option x a s")
    case (Inl e')
    with Cons.prems have "e' = e" by simp
    with Inl have "x # xs = [] @ x # xs \<and> apply_opts [] a s = Inr s \<and>
        call_Option x a s = Inl e"
      by simp
    then show ?thesis by blast
  next
    case (Inr s')
    with Cons.prems have "apply_opts xs a s' = Inl e" by simp
    from Cons.IH [OF this] obtain pre opt post t where
      "xs = pre @ opt # post" "apply_opts pre a s' = Inr t" "call_Option opt a t = Inl e"
      by blast
    with Inr have "x # xs = (x # pre) @ opt # post \<and> apply_opts (x # pre) a s = Inr t \<and>
        call_Option opt a t = Inl e"
      by simp
    then show ?thesis by blast
  qed
qed

lemma New_Inl:
  assumes "New b opts s = Inl e"
  shows "\<exists>pre opt post client t. opts = pre @ opt # post \<and>
           New b pre s = Inr (Some client, t) \<and> call_Option opt client t = Inl e"
proof -
  from assms have "apply_opts opts (length (Client_objs s))
             (s\<lparr>http_Client_objs := http_Client_objs s @ [http_Client_zero],
                Client_objs := Client_objs s @
                  [\<lparr>baseURL = b, header = Some Map.empty, logger = None,
                    baseClient = Some (length (http_Client_objs s))\<rparr>]\<rparr>) = Inl e"
    by (simp add: New_apply_opts split: sum.splits)
  from apply_opts_Inl [OF this] obtain pre opt post t where
    "opts = pre @ opt # post"
    "apply_opts pre (length (Client_objs s))
             (s\<lparr>http_Client_objs := http_Client_objs s @ [http_Client_zero],
                Client_objs := Client_objs s @
                  [\<lparr>baseURL = b, header = Some Map.empty, logger = None,
                    baseClient = Some (length (http_Client_objs s))\<rparr>]\<rparr>) = Inr t"
    "call_Option opt (length (Client_objs s)) t = Inl e"
    by blast
  then have "opts = pre @ opt # post \<and>
      New b pre s = Inr (Some (length (Client_objs s)), t) \<and>
      call_Option opt (length (Client_objs s)) t = Inl e"
    by (simp add: New_apply_opts)
  then show ?thesis by blast
qed

text \<open>A closure that always returns, called on an object of the heap.\<close>

lemma call_Option_returning:
  "a < length (Client_objs s) \<Longrightarrow>
   call_Option (Some (\<lambda>c. Inr (g c))) a s =
     Inr (s\<lparr>Client_objs := (Client_objs s)[a := g (Client_objs s ! a)]\<rparr>)"
  by (simp add: call_Option_def)

lemma assign_same_attribute:
  "attribute_of v1 = attribute_of v2 \<Longrightarrow> assign v2 (assign v1 c) = assign v2 c"
  by (cases v1; cases v2) simp_all

lemma assign_idem: "assign v (assign v c) = assign v c"
  by (cases v) simp_all

lemma WithHeader_assignment: "WithHeader h = assignment_Option (Set_header h)"
  by (auto simp: WithHeader_def assignment_Option_def)

lemma WithLogger_assignment: "WithLogger l = assignment_Option (Set_logger l)"
  by (auto simp: WithLogger_def assignment_Option_def)

text \<open>
  A sequence of named options returns, and leaves at the target a struct with the
  identifier and the base client it found there; nothing else in the heap changes.
\<close>

lemma apply_opts_named:
  "list_all named_option opts \<Longrightarrow> a < length (Client_objs t) \<Longrightarrow>
   \<exists>c. apply_opts opts a t = Inr (t\<lparr>Client_objs := (Client_objs t)[a := c]\<rparr>) \<and>
       baseURL c = baseURL (Client_objs t ! a) \<and>
       baseClient c = baseClient (Client_objs t ! a)"
proof (induction opts arbitrary: t)
  case Nil
  have "t\<lparr>Client_objs := (Client_objs t)[a := Client_objs t ! a]\<rparr> = t"
    by simp
  then show ?case by (intro exI [of _ "Client_objs t ! a"]) simp
next
  case (Cons opt opts)
  from Cons.prems(1) obtain g where
    g: "opt = Some (\<lambda>c. Inr (g c))" and
    frame: "\<And>c. baseURL (g c) = baseURL c \<and> baseClient (g c) = baseClient c"
    by (auto simp: named_option_def WithHeader_def WithLogger_def)
  let ?t' = "t\<lparr>Client_objs := (Client_objs t)[a := g (Client_objs t ! a)]\<rparr>"
  have call: "call_Option opt a t = Inr ?t'"
    using Cons.prems(2) by (simp add: g call_Option_returning)
  from Cons.prems have "list_all named_option opts" and "a < length (Client_objs ?t')"
    by simp_all
  from Cons.IH [OF this] obtain c where
    c: "apply_opts opts a ?t' = Inr (?t'\<lparr>Client_objs := (Client_objs ?t')[a := c]\<rparr>)"
      "baseURL c = baseURL (Client_objs ?t' ! a)"
      "baseClient c = baseClient (Client_objs ?t' ! a)"
    by blast
  have "apply_opts (opt # opts) a t = Inr (t\<lparr>Client_objs := (Client_objs t)[a := c]\<rparr>)"
    using c(1) by (simp add: call)
  moreover have "baseURL c = baseURL (Client_objs t ! a)"
    and "baseClient c = baseClient (Client_objs t ! a)"
    using c(2,3) Cons.prems(2) frame by simp_all
  ultimately show ?case by blast
qed

lemma load_http_Client_Client_objs:
  "load_http_Client p (t\<lparr>Client_objs := xs\<rparr>) = load_http_Client p t"
  by (cases p) (simp_all add: load_http_Client_def)

lemma same_attributes_Client_objs:
  "same_attributes (t1\<lparr>Client_objs := xs\<rparr>) c1 (t2\<lparr>Client_objs := ys\<rparr>) c2 =
   same_attributes t1 c1 t2 c2"
  by (simp add: same_attributes_def load_http_Client_Client_objs)

text \<open>
  Two option sequences that behave the same, run on targets that agree attribute for
  attribute, both panic or leave targets that agree attribute for attribute.
\<close>

lemma apply_opts_same:
  assumes "list_all2 same_behaviour opts1 opts2"
    and "a1 < length (Client_objs t1)" and "a2 < length (Client_objs t2)"
    and "same_attributes t1 (Client_objs t1 ! a1) t2 (Client_objs t2 ! a2)"
  shows "case (apply_opts opts1 a1 t1, apply_opts opts2 a2 t2) of
           (Inl e1, Inl e2) \<Rightarrow> e1 = e2
         | (Inr u1, Inr u2) \<Rightarrow>
             a1 < length (Client_objs u1) \<and> a2 < length (Client_objs u2) \<and>
             same_attributes u1 (Client_objs u1 ! a1) u2 (Client_objs u2 ! a2)
         | _ \<Rightarrow> False"
  using assms
proof (induction opts1 opts2 arbitrary: t1 t2 rule: list_all2_induct)
  case Nil
  then show ?case by simp
next
  case (Cons o1 os1 o2 os2)
  show ?case
  proof (cases o1)
    case None
    with Cons.hyps(1) have "o2 = None"
      by (cases o2) (simp_all add: same_behaviour_def)
    with None show ?thesis by (simp add: call_Option_def)
  next
    case (Some f)
    with Cons.hyps(1) obtain g where g: "o2 = Some g"
      by (cases o2) (simp_all add: same_behaviour_def)
    from Cons.hyps(1) Some g Cons.prems(3)
    have rel: "case (f (Client_objs t1 ! a1), g (Client_objs t2 ! a2)) of
                 (Inl e1, Inl e2) \<Rightarrow> e1 = e2
               | (Inr d1, Inr d2) \<Rightarrow> same_attributes t1 d1 t2 d2
               | _ \<Rightarrow> False"
      by (simp add: same_behaviour_def)
    show ?thesis
    proof (cases "f (Client_objs t1 ! a1)")
      case (Inl e1)
      with rel obtain e2 where "g (Client_objs t2 ! a2) = Inl e2" and "e1 = e2"
        by (cases "g (Client_objs t2 ! a2)") simp_all
      with Inl show ?thesis
        using Cons.prems(1,2) by (simp add: Some g call_Option_def)
    next
      case (Inr d1)
      with rel obtain d2 where d2: "g (Client_objs t2 ! a2) = Inr d2"
        and same: "same_attributes t1 d1 t2 d2"
        by (cases "g (Client_objs t2 ! a2)") simp_all
      let ?u1 = "t1\<lparr>Client_objs := (Client_objs t1)[a1 := d1]\<rparr>"
      let ?u2 = "t2\<lparr>Client_objs := (Client_objs t2)[a2 := d2]\<rparr>"
      have step: "same_attributes ?u1 (Client_objs ?u1 ! a1) ?u2 (Client_objs ?u2 ! a2)"
        using same Cons.prems(1,2) by (simp add: same_attributes_Client_objs)
      have "a1 < length (Client_objs ?u1)" and "a2 < length (Client_objs ?u2)"
        using Cons.prems(1,2) by simp_all
      from Cons.IH [OF this step] show ?thesis
        using Cons.prems(1,2) by (simp add: Some g Inr d2 call_Option_def)
    qed
  qed
qed

section \<open>Defaults and overriding\<close>

text \<open>
  C1. For a non-empty identifier \<open>b\<close>, \<^verbatim>\<open>New(b)\<close> without options returns a pointer to a new
  \<^verbatim>\<open>Client\<close> whose identifier is \<open>b\<close> and whose optional attributes are at their defaults:
  the header is the empty map (not nil) and the logger is unset (nil). Its fourth field
  points to the \<^verbatim>\<open>http.Client\<close> allocated by the same call.
\<close>

theorem C1_defaults:
  assumes "b \<noteq> []"
  shows "target (New b [] s) =
           Some \<lparr>baseURL = b, header = Some Map.empty, logger = None,
                 baseClient = Some (length (http_Client_objs s))\<rparr>"
  by (simp add: New_Nil target_def load_Client_def)

theorem C1_defaults_witness:
  "''https://api.example.com'' \<noteq> [] \<and>
   target (New ''https://api.example.com'' [] (empty_heap :: nat heap)) =
     Some \<lparr>baseURL = ''https://api.example.com'', header = Some Map.empty, logger = None,
           baseClient = Some 0\<rparr>"
  using C1_defaults [of "''https://api.example.com''" "empty_heap :: nat heap"]
  by (simp add: empty_heap_def)

text \<open>
  C2. Last write wins. For a non-empty identifier \<open>b\<close> and two assignments to the same
  attribute, the call with both options returns what the call with the later one alone
  returns: the earlier value leaves no trace. In particular \<^verbatim>\<open>WithHeader(h1)\<close> followed by
  \<^verbatim>\<open>WithHeader(h2)\<close> leaves the header equal to \<open>h2\<close> as a whole; the two maps are not
  merged.
\<close>

theorem C2_last_write_wins:
  assumes "b \<noteq> []"
  shows "(attribute_of v1 = attribute_of v2 \<longrightarrow>
            New b [assignment_Option v1, assignment_Option v2] s =
              New b [assignment_Option v2] s) \<and>
         New b [WithHeader h1, WithHeader h2] s = New b [WithHeader h2] s \<and>
         target (New b [WithHeader h1, WithHeader h2] s) =
           Some \<lparr>baseURL = b, header = h2, logger = None,
                 baseClient = Some (length (http_Client_objs s))\<rparr>"
  by (simp add: New_apply_opts call_Option_def target_def load_Client_def
      assignment_Option_def WithHeader_def assign_same_attribute)

theorem C2_last_write_wins_witness:
  "''https://api.example.com'' \<noteq> [] \<and>
   attribute_of (Set_header (Some [''A'' \<mapsto> ''1'']) :: nat assignment) =
     attribute_of (Set_header (Some [''B'' \<mapsto> ''2'']) :: nat assignment) \<and>
   New ''https://api.example.com''
       [assignment_Option (Set_header (Some [''A'' \<mapsto> ''1''])),
        assignment_Option (Set_header (Some [''B'' \<mapsto> ''2'']))] (empty_heap :: nat heap) =
     New ''https://api.example.com''
       [assignment_Option (Set_header (Some [''B'' \<mapsto> ''2'']))] empty_heap \<and>
   New ''https://api.example.com''
       [WithHeader (Some [''A'' \<mapsto> ''1'']), WithHeader (Some [''B'' \<mapsto> ''2''])]
       (empty_heap :: nat heap) =
     New ''https://api.example.com'' [WithHeader (Some [''B'' \<mapsto> ''2''])] empty_heap \<and>
   target (New ''https://api.example.com''
       [WithHeader (Some [''A'' \<mapsto> ''1'']), WithHeader (Some [''B'' \<mapsto> ''2''])]
       (empty_heap :: nat heap)) =
     Some \<lparr>baseURL = ''https://api.example.com'', header = Some [''B'' \<mapsto> ''2''],
           logger = None, baseClient = Some 0\<rparr>"
proof -
  have ne: "''https://api.example.com'' \<noteq> []" by simp
  note t = C2_last_write_wins
    [OF ne, of "Set_header (Some [''A'' \<mapsto> ''1'']) :: nat assignment"
        "Set_header (Some [''B'' \<mapsto> ''2''])" "empty_heap"
        "Some [''A'' \<mapsto> ''1'']" "Some [''B'' \<mapsto> ''2'']"]
  have at: "attribute_of (Set_header (Some [''A'' \<mapsto> ''1'']) :: nat assignment) =
     attribute_of (Set_header (Some [''B'' \<mapsto> ''2'']) :: nat assignment)" by simp
  from t at have general: "New ''https://api.example.com''
       [assignment_Option (Set_header (Some [''A'' \<mapsto> ''1''])),
        assignment_Option (Set_header (Some [''B'' \<mapsto> ''2'']))] (empty_heap :: nat heap) =
     New ''https://api.example.com''
       [assignment_Option (Set_header (Some [''B'' \<mapsto> ''2'']))] empty_heap"
    by blast
  from t [THEN conjunct2, THEN conjunct2]
  have final: "target (New ''https://api.example.com''
       [WithHeader (Some [''A'' \<mapsto> ''1'']), WithHeader (Some [''B'' \<mapsto> ''2''])]
       (empty_heap :: nat heap)) =
     Some \<lparr>baseURL = ''https://api.example.com'', header = Some [''B'' \<mapsto> ''2''],
           logger = None, baseClient = Some 0\<rparr>"
    by (simp add: empty_heap_def)
  from ne at general t [THEN conjunct2, THEN conjunct1] final show ?thesis
    by blast
qed

section \<open>Failure and validation\<close>

text \<open>
  C3. \<^verbatim>\<open>New\<close> is fail-fast. An \<^verbatim>\<open>Option\<close> returns no value, so the failure an option can
  signal is a panic (a nil option fails when it is called). For every identifier and
  every option sequence in which the options before some option all return and that
  option fails on the target they leave, \<^verbatim>\<open>New\<close> stops there with that option's failure:
  whatever options follow, none of them changes the outcome, and no target, partly
  configured or not, is returned.
\<close>

theorem C3_fail_fast:
  assumes "New b pre s = Inr (Some client, t)"
    and "call_Option opt client t = Inl e"
  shows "New b (pre @ opt # post) s = Inl e \<and>
         target (New b (pre @ opt # post) s) = None"
proof -
  let ?a = "length (Client_objs s)"
  let ?s2 = "s\<lparr>http_Client_objs := http_Client_objs s @ [http_Client_zero],
                Client_objs := Client_objs s @
                  [\<lparr>baseURL = b, header = Some Map.empty, logger = None,
                    baseClient = Some (length (http_Client_objs s))\<rparr>]\<rparr>"
  from assms(1) have pre: "apply_opts pre ?a ?s2 = Inr t" and client: "client = ?a"
    by (auto simp: New_apply_opts split: sum.splits)
  have "apply_opts (pre @ opt # post) ?a ?s2 = Inl e"
    using pre assms(2) by (simp add: apply_opts_append client)
  then have "New b (pre @ opt # post) s = Inl e"
    by (simp add: New_apply_opts)
  then show ?thesis by (simp add: target_def)
qed

theorem C3_fail_fast_witness:
  "New ''https://api.example.com'' [WithHeader None] empty_heap =
     Inr (Some 0,
          \<lparr>Client_objs =
             [\<lparr>baseURL = ''https://api.example.com'', header = None, logger = None :: nat option,
               baseClient = Some 0\<rparr>],
           http_Client_objs = [http_Client_zero]\<rparr>) \<and>
   call_Option (AddHeader ''A'' ''1'') 0
     \<lparr>Client_objs =
        [\<lparr>baseURL = ''https://api.example.com'', header = None, logger = None :: nat option,
          baseClient = Some 0\<rparr>],
      http_Client_objs = [http_Client_zero]\<rparr> = Inl NilMapAssignment \<and>
   New ''https://api.example.com''
     [WithHeader None, AddHeader ''A'' ''1'', WithLogger (Some (7::nat))] empty_heap =
     Inl NilMapAssignment \<and>
   target (New ''https://api.example.com''
     [WithHeader None, AddHeader ''A'' ''1'', WithLogger (Some (7::nat))] empty_heap) = None"
proof -
  let ?t = "\<lparr>Client_objs =
        [\<lparr>baseURL = ''https://api.example.com'', header = None, logger = None :: nat option,
          baseClient = Some 0\<rparr>],
      http_Client_objs = [http_Client_zero]\<rparr>"
  have pre: "New ''https://api.example.com'' [WithHeader None] empty_heap = Inr (Some 0, ?t)"
    by (simp add: New_apply_opts call_Option_def WithHeader_def empty_heap_def)
  have fails: "call_Option (AddHeader ''A'' ''1'') 0 ?t = Inl NilMapAssignment"
    by (simp add: call_Option_def AddHeader_def)
  note inst = C3_fail_fast
    [OF pre fails, of "[WithLogger (Some 7)]", unfolded append_Cons append_Nil]
  from pre fails inst show ?thesis by blast
qed

text \<open>
  C4, as the code has it. \<^verbatim>\<open>New\<close> does not validate the identifier: called with the empty
  string and no options it returns, in every heap, a pointer to a new target whose
  identifier is the empty string and whose optional attributes are at their defaults.
\<close>

theorem C4_empty_identifier_accepted:
  "\<exists>s'. New '''' [] s = Inr (Some (length (Client_objs s)), s') \<and>
         load_Client (Some (length (Client_objs s))) s' =
           Some \<lparr>baseURL = '''', header = Some Map.empty, logger = None,
                 baseClient = Some (length (http_Client_objs s))\<rparr>"
  by (simp add: New_Nil load_Client_def)

theorem C4_counterexample:
  "New '''' [] (empty_heap :: nat heap) =
   Inr (Some 0,
        \<lparr>Client_objs =
           [\<lparr>baseURL = '''', header = Some Map.empty, logger = None, baseClient = Some 0\<rparr>],
         http_Client_objs = [http_Client_zero]\<rparr>)"
  by (simp add: New_Nil empty_heap_def)

section \<open>Algebra of the named options\<close>

text \<open>
  C5. For a non-empty identifier \<open>b\<close>, a header \<open>h\<close> and a logger \<open>l\<close>, the two orders of
  \<^verbatim>\<open>WithHeader(h)\<close> and \<^verbatim>\<open>WithLogger(l)\<close> give the same result, and the target is the default
  target with the header set to \<open>h\<close> and the logger set to \<open>l\<close>, in either order of the two
  updates.
\<close>

theorem C5_disjoint_commute:
  assumes "b \<noteq> []"
  shows "New b [WithHeader h, WithLogger l] s = New b [WithLogger l, WithHeader h] s \<and>
         target (New b [WithHeader h, WithLogger l] s) =
           map_option (\<lambda>d. d\<lparr>header := h, logger := l\<rparr>) (target (New b [] s)) \<and>
         target (New b [WithLogger l, WithHeader h] s) =
           map_option (\<lambda>d. d\<lparr>logger := l, header := h\<rparr>) (target (New b [] s)) \<and>
         target (New b [WithHeader h, WithLogger l] s) =
           Some \<lparr>baseURL = b, header = h, logger = l,
                 baseClient = Some (length (http_Client_objs s))\<rparr>"
  by (simp add: New_apply_opts call_Option_def target_def load_Client_def WithHeader_def
      WithLogger_def)

theorem C5_disjoint_commute_witness:
  "''https://api.example.com'' \<noteq> [] \<and>
   New ''https://api.example.com''
       [WithHeader (Some [''Authorization'' \<mapsto> ''Bearer token'']), WithLogger (Some (7::nat))]
       empty_heap =
     New ''https://api.example.com''
       [WithLogger (Some 7), WithHeader (Some [''Authorization'' \<mapsto> ''Bearer token''])]
       empty_heap \<and>
   target (New ''https://api.example.com''
       [WithHeader (Some [''Authorization'' \<mapsto> ''Bearer token'']), WithLogger (Some (7::nat))]
       empty_heap) =
     Some \<lparr>baseURL = ''https://api.example.com'',
           header = Some [''Authorization'' \<mapsto> ''Bearer token''],
           logger = Some 7, baseClient = Some 0\<rparr>"
proof -
  have ne: "''https://api.example.com'' \<noteq> []" by simp
  note t = C5_disjoint_commute
    [OF ne, of "Some [''Authorization'' \<mapsto> ''Bearer token'']" "Some (7::nat)" empty_heap]
  from t [THEN conjunct2, THEN conjunct2, THEN conjunct2]
  have final: "target (New ''https://api.example.com''
       [WithHeader (Some [''Authorization'' \<mapsto> ''Bearer token'']), WithLogger (Some (7::nat))]
       empty_heap) =
     Some \<lparr>baseURL = ''https://api.example.com'',
           header = Some [''Authorization'' \<mapsto> ''Bearer token''],
           logger = Some 7, baseClient = Some 0\<rparr>"
    by (simp add: empty_heap_def)
  from ne t [THEN conjunct1] final show ?thesis
    by blast
qed

text \<open>
  C6. For a non-empty identifier \<open>b\<close> and an option that is a pure assignment, passing
  the option twice in a row returns what passing it once returns; so it is for every
  option made by \<^verbatim>\<open>WithHeader\<close> or \<^verbatim>\<open>WithLogger\<close>.
\<close>

theorem C6_idempotent:
  assumes "b \<noteq> []"
  shows "New b [assignment_Option v, assignment_Option v] s = New b [assignment_Option v] s \<and>
         New b [WithHeader h, WithHeader h] s = New b [WithHeader h] s \<and>
         New b [WithLogger l, WithLogger l] s = New b [WithLogger l] s"
  by (simp add: New_apply_opts call_Option_def assignment_Option_def WithHeader_def
      WithLogger_def assign_idem)

theorem C6_idempotent_witness:
  "''https://api.example.com'' \<noteq> [] \<and>
   New ''https://api.example.com''
       [assignment_Option (Set_baseURL ''http://localhost''),
        assignment_Option (Set_baseURL ''http://localhost'')] (empty_heap :: nat heap) =
     New ''https://api.example.com''
       [assignment_Option (Set_baseURL ''http://localhost'')] empty_heap \<and>
   New ''https://api.example.com''
       [WithHeader (Some [''A'' \<mapsto> ''1'']), WithHeader (Some [''A'' \<mapsto> ''1''])]
       (empty_heap :: nat heap) =
     New ''https://api.example.com'' [WithHeader (Some [''A'' \<mapsto> ''1''])] empty_heap \<and>
   New ''https://api.example.com'' [WithLogger (Some (7::nat)), WithLogger (Some 7)] empty_heap =
     New ''https://api.example.com'' [WithLogger (Some 7)] empty_heap"
proof -
  have ne: "''https://api.example.com'' \<noteq> []" by simp
  from ne C6_idempotent
    [OF ne, of "Set_baseURL ''http://localhost'' :: nat assignment"
        empty_heap "Some [''A'' \<mapsto> ''1'']" "Some 7"]
  show ?thesis by blast
qed

section \<open>Determinism\<close>

text \<open>
  C7. Two calls of \<^verbatim>\<open>New\<close> with the same identifier and with option sequences that behave
  the same, position by position, have the same outcome, in whatever heaps the two calls
  run: both return targets that agree attribute for attribute (or both end in the same
  panic). The result depends on the arguments only; the heap decides nothing but the
  addresses of the new objects.
\<close>

theorem C7_deterministic:
  assumes "list_all2 same_behaviour opts1 opts2"
  shows "same_outcome (New b opts1 s1) (New b opts2 s2)"
proof -
  let ?t1 = "s1\<lparr>http_Client_objs := http_Client_objs s1 @ [http_Client_zero],
            Client_objs := Client_objs s1 @
              [\<lparr>baseURL = b, header = Some Map.empty, logger = None,
                baseClient = Some (length (http_Client_objs s1))\<rparr>]\<rparr>"
  let ?t2 = "s2\<lparr>http_Client_objs := http_Client_objs s2 @ [http_Client_zero],
            Client_objs := Client_objs s2 @
              [\<lparr>baseURL = b, header = Some Map.empty, logger = None,
                baseClient = Some (length (http_Client_objs s2))\<rparr>]\<rparr>"
  let ?a1 = "length (Client_objs s1)" and ?a2 = "length (Client_objs s2)"
  have N1: "New b opts1 s1 =
      (case apply_opts opts1 ?a1 ?t1 of Inl e \<Rightarrow> Inl e | Inr s3 \<Rightarrow> Inr (Some ?a1, s3))"
    by (simp add: New_def new_http_Client_def new_Client_def cong: sum.case_cong)
  have N2: "New b opts2 s2 =
      (case apply_opts opts2 ?a2 ?t2 of Inl e \<Rightarrow> Inl e | Inr s3 \<Rightarrow> Inr (Some ?a2, s3))"
    by (simp add: New_def new_http_Client_def new_Client_def cong: sum.case_cong)
  have init: "same_attributes ?t1 (Client_objs ?t1 ! ?a1) ?t2 (Client_objs ?t2 ! ?a2)"
    by (simp add: same_attributes_def load_http_Client_def)
  have "?a1 < length (Client_objs ?t1)" and "?a2 < length (Client_objs ?t2)"
    by simp_all
  from apply_opts_same [OF assms this init] show ?thesis
    unfolding N1 N2
    by (auto simp: same_outcome_def load_Client_def split: sum.splits)
qed

theorem C7_deterministic_witness:
  "list_all2 same_behaviour
     [WithHeader (Some [''A'' \<mapsto> ''1'']), WithLogger (Some (7::nat))]
     [WithHeader (Some [''A'' \<mapsto> ''1'']), WithLogger (Some 7)] \<and>
   same_outcome
     (New ''https://api.example.com''
        [WithHeader (Some [''A'' \<mapsto> ''1'']), WithLogger (Some 7)] empty_heap)
     (New ''https://api.example.com''
        [WithHeader (Some [''A'' \<mapsto> ''1'']), WithLogger (Some 7)] busy_heap)"
proof -
  have same: "list_all2 same_behaviour
     [WithHeader (Some [''A'' \<mapsto> ''1'']), WithLogger (Some (7::nat))]
     [WithHeader (Some [''A'' \<mapsto> ''1'']), WithLogger (Some 7)]"
    by (simp add: same_behaviour_def WithHeader_def WithLogger_def same_attributes_def)
  from same C7_deterministic [OF same, of "''https://api.example.com''" empty_heap busy_heap]
  show ?thesis by blast
qed

section \<open>Frame of the named options\<close>

text \<open>
  C8. An option made by a named factory writes its captured value to one field of the
  target and changes nothing else. Applied to a target at address \<open>c\<close> of any heap,
  \<^verbatim>\<open>WithHeader(h)\<close> returns, sets the header of that struct to \<open>h\<close> and leaves its identifier,
  logger and base client, every other struct and every \<^verbatim>\<open>http.Client\<close> as they were;
  \<^verbatim>\<open>WithLogger(l)\<close> does the same with the logger in place of the header.
\<close>

theorem C8_frame:
  assumes "c < length (Client_objs s)"
  shows "(\<exists>s'. call_Option (WithHeader h) c s = Inr s' \<and>
            header (Client_objs s' ! c) = h \<and>
            baseURL (Client_objs s' ! c) = baseURL (Client_objs s ! c) \<and>
            logger (Client_objs s' ! c) = logger (Client_objs s ! c) \<and>
            baseClient (Client_objs s' ! c) = baseClient (Client_objs s ! c) \<and>
            length (Client_objs s') = length (Client_objs s) \<and>
            (\<forall>i. i \<noteq> c \<longrightarrow> Client_objs s' ! i = Client_objs s ! i) \<and>
            http_Client_objs s' = http_Client_objs s) \<and>
         (\<exists>s'. call_Option (WithLogger l) c s = Inr s' \<and>
            logger (Client_objs s' ! c) = l \<and>
            baseURL (Client_objs s' ! c) = baseURL (Client_objs s ! c) \<and>
            header (Client_objs s' ! c) = header (Client_objs s ! c) \<and>
            baseClient (Client_objs s' ! c) = baseClient (Client_objs s ! c) \<and>
            length (Client_objs s') = length (Client_objs s) \<and>
            (\<forall>i. i \<noteq> c \<longrightarrow> Client_objs s' ! i = Client_objs s ! i) \<and>
            http_Client_objs s' = http_Client_objs s)"
  using assms by (simp add: call_Option_def WithHeader_def WithLogger_def)

theorem C8_frame_witness:
  "0 < length (Client_objs busy_heap) \<and>
   (\<exists>s'. call_Option (WithHeader (Some [''A'' \<mapsto> ''1''])) 0 busy_heap = Inr s' \<and>
      header (Client_objs s' ! 0) = Some [''A'' \<mapsto> ''1''] \<and>
      baseURL (Client_objs s' ! 0) = ''http://localhost'' \<and>
      logger (Client_objs s' ! 0) = Some 3 \<and>
      baseClient (Client_objs s' ! 0) = Some 0 \<and>
      http_Client_objs s' = http_Client_objs busy_heap) \<and>
   (\<exists>s'. call_Option (WithLogger None) 0 busy_heap = Inr s' \<and>
      logger (Client_objs s' ! 0) = None \<and>
      baseURL (Client_objs s' ! 0) = ''http://localhost'' \<and>
      header (Client_objs s' ! 0) = None \<and>
      baseClient (Client_objs s' ! 0) = Some 0 \<and>
      http_Client_objs s' = http_Client_objs busy_heap)"
proof -
  have valid: "0 < length (Client_objs busy_heap)"
    by (simp add: busy_heap_def)
  have old: "Client_objs busy_heap ! 0 =
      \<lparr>baseURL = ''http://localhost'', header = None, logger = Some 3, baseClient = Some 0\<rparr>"
    by (simp add: busy_heap_def)
  note t = C8_frame [OF valid, of "Some [''A'' \<mapsto> ''1'']" None]
  from t [THEN conjunct1] old
  have hd: "\<exists>s'. call_Option (WithHeader (Some [''A'' \<mapsto> ''1''])) 0 busy_heap = Inr s' \<and>
      header (Client_objs s' ! 0) = Some [''A'' \<mapsto> ''1''] \<and>
      baseURL (Client_objs s' ! 0) = ''http://localhost'' \<and>
      logger (Client_objs s' ! 0) = Some 3 \<and>
      baseClient (Client_objs s' ! 0) = Some 0 \<and>
      http_Client_objs s' = http_Client_objs busy_heap"
    by auto
  from t [THEN conjunct2] old
  have lg: "\<exists>s'. call_Option (WithLogger None) 0 busy_heap = Inr s' \<and>
      logger (Client_objs s' ! 0) = None \<and>
      baseURL (Client_objs s' ! 0) = ''http://localhost'' \<and>
      header (Client_objs s' ! 0) = None \<and>
      baseClient (Client_objs s' ! 0) = Some 0 \<and>
      http_Client_objs s' = http_Client_objs busy_heap"
    by auto
  from valid hd lg show ?thesis by blast
qed

section \<open>Totality and agreement of the constructors\<close>

text \<open>
  C9. \<^verbatim>\<open>New\<close> rejects nothing. For every identifier, the empty string included, and every
  sequence of options made by \<^verbatim>\<open>WithHeader\<close> and \<^verbatim>\<open>WithLogger\<close> from any header and any
  logger, nil included, \<^verbatim>\<open>New\<close> returns without a panic a non-nil pointer to a struct that
  did not exist before the call, whose identifier is the given string and whose base
  client is a non-nil pointer to an \<^verbatim>\<open>http.Client\<close> that did not exist before the call
  either and holds the zero value. The objects that existed before are untouched.
\<close>

theorem C9_total:
  assumes "list_all named_option opts"
  shows "\<exists>s' c. New b opts s = Inr (Some (length (Client_objs s)), s') \<and>
           load_Client (Some (length (Client_objs s))) s = None \<and>
           load_Client (Some (length (Client_objs s))) s' = Some c \<and>
           baseURL c = b \<and>
           baseClient c = Some (length (http_Client_objs s)) \<and>
           load_http_Client (baseClient c) s = None \<and>
           load_http_Client (baseClient c) s' = Some http_Client_zero \<and>
           take (length (Client_objs s)) (Client_objs s') = Client_objs s \<and>
           take (length (http_Client_objs s)) (http_Client_objs s') = http_Client_objs s"
proof -
  let ?a = "length (Client_objs s)"
  let ?c0 = "\<lparr>baseURL = b, header = Some Map.empty, logger = None,
              baseClient = Some (length (http_Client_objs s))\<rparr> :: 'a Client"
  let ?s2 = "s\<lparr>http_Client_objs := http_Client_objs s @ [http_Client_zero],
              Client_objs := Client_objs s @ [?c0]\<rparr>"
  have "?a < length (Client_objs ?s2)" by simp
  from apply_opts_named [OF assms this] obtain c where
    run: "apply_opts opts ?a ?s2 = Inr (?s2\<lparr>Client_objs := (Client_objs ?s2)[?a := c]\<rparr>)"
    and "baseURL c = baseURL (Client_objs ?s2 ! ?a)"
    and "baseClient c = baseClient (Client_objs ?s2 ! ?a)"
    by blast
  then have c: "baseURL c = b" "baseClient c = Some (length (http_Client_objs s))"
    by simp_all
  let ?s' = "?s2\<lparr>Client_objs := (Client_objs ?s2)[?a := c]\<rparr>"
  have "New b opts s = Inr (Some ?a, ?s')"
    by (simp add: New_apply_opts run)
  moreover have "load_Client (Some ?a) s = None"
    by (simp add: load_Client_def)
  moreover have "load_Client (Some ?a) ?s' = Some c"
    by (simp add: load_Client_def)
  moreover have "load_http_Client (baseClient c) s = None"
    by (simp add: c load_http_Client_def)
  moreover have "load_http_Client (baseClient c) ?s' = Some http_Client_zero"
    by (simp add: c load_http_Client_def)
  moreover have "take ?a (Client_objs ?s') = Client_objs s"
    by simp
  moreover have "take (length (http_Client_objs s)) (http_Client_objs ?s') = http_Client_objs s"
    by simp
  ultimately show ?thesis using c by blast
qed

theorem C9_total_witness:
  "list_all named_option [WithHeader None, WithLogger (None :: nat option)] \<and>
   (\<exists>s' c. New '''' [WithHeader None, WithLogger (None :: nat option)] busy_heap =
              Inr (Some (length (Client_objs busy_heap)), s') \<and>
      load_Client (Some (length (Client_objs busy_heap))) busy_heap = None \<and>
      load_Client (Some (length (Client_objs busy_heap))) s' = Some c \<and>
      baseURL c = '''' \<and>
      baseClient c = Some (length (http_Client_objs busy_heap)) \<and>
      load_http_Client (baseClient c) busy_heap = None \<and>
      load_http_Client (baseClient c) s' = Some http_Client_zero \<and>
      take (length (Client_objs busy_heap)) (Client_objs s') = Client_objs busy_heap \<and>
      take (length (http_Client_objs busy_heap)) (http_Client_objs s') =
        http_Client_objs busy_heap)"
proof -
  have named: "list_all named_option [WithHeader None, WithLogger (None :: nat option)]"
    by (auto simp: named_option_def)
  from named C9_total [OF named, of "''''" busy_heap]
  show ?thesis by blast
qed

text \<open>
  C10. The three constructors build the same client. From one heap, the traditional
  constructor called with \<open>b\<close>, \<open>h\<close>, \<open>l\<close>, the config-struct constructor called with a
  pointer to \<^verbatim>\<open>Config{BaseURL: b, Header: h, Logger: l}\<close> and the functional-options
  constructor called with \<open>b\<close>, \<^verbatim>\<open>WithHeader(h)\<close>, \<^verbatim>\<open>WithLogger(l)\<close> return the same pointer and
  leave the same heap; from any three heaps, the three clients have identifier \<open>b\<close>, header
  \<open>h\<close> and logger \<open>l\<close>.
\<close>

theorem C10_constructors_agree:
  "Inr (traditional_New b h l s) = New b [WithHeader h, WithLogger l] s \<and>
   NewWithConfig (Some \<lparr>BaseURL = b, Header = h, Logger = l\<rparr>) s =
     New b [WithHeader h, WithLogger l] s \<and>
   map_option attributes (target (Inr (traditional_New b h l s1))) = Some (b, h, l) \<and>
   map_option attributes
     (target (NewWithConfig (Some \<lparr>BaseURL = b, Header = h, Logger = l\<rparr>) s2)) =
     Some (b, h, l) \<and>
   map_option attributes (target (New b [WithHeader h, WithLogger l] s3)) = Some (b, h, l)"
  by (simp add: traditional_New_def NewWithConfig_def New_apply_opts call_Option_def WithHeader_def
      WithLogger_def new_http_Client_def new_Client_def target_def load_Client_def
      attributes_def)

end
